theory Spec2Isabelle
  imports Complex_Main "HOL-Library.Multiset"
begin

section \<open>Python values and exceptions\<close>

text \<open>
  The script \<^verbatim>\<open>streamlit_financial_dashboard.py\<close> works on the objects that
  \<^verbatim>\<open>response.json()\<close> returns: \<^verbatim>\<open>None\<close>, booleans, numbers, strings, lists and
  dictionaries. A dictionary is the list of its items (keys distinct); \<^verbatim>\<open>d.get(k, default)\<close>
  looks the key up in it.
\<close>

datatype pyobj =
    PNone
  | PBool bool
  | PNum real
  | PStr string
  | PList "pyobj list"
  | PDict "(string \<times> pyobj) list"

text \<open>
  The exceptions of the batch path. \<open>External d\<close> is an exception raised inside a
  collaborator (the HTTP client, the JSON decoder, the date parser) whose description
  \<^verbatim>\<open>str(e)\<close> is \<open>d\<close>.
\<close>

datatype exn = AttributeError | TypeError | KeyError | ValueError | External string

text \<open>Truth value testing, as \<^verbatim>\<open>not x\<close>, \<^verbatim>\<open>x or y\<close> and \<^verbatim>\<open>a if x else b\<close> use it.\<close>

fun truthy :: "pyobj \<Rightarrow> bool" where
  "truthy PNone = False"
| "truthy (PBool b) = b"
| "truthy (PNum r) = (r \<noteq> 0)"
| "truthy (PStr s) = (s \<noteq> [])"
| "truthy (PList xs) = (xs \<noteq> [])"
| "truthy (PDict kvs) = (kvs \<noteq> [])"

definition py_or :: "pyobj \<Rightarrow> pyobj \<Rightarrow> pyobj" where
  "py_or x y = (if truthy x then x else y)"

text \<open>
  \<^verbatim>\<open>x + s\<close> with a string \<open>s\<close> on the right, and \<^verbatim>\<open>s + y\<close> with a string on the left:
  both raise TypeError unless the other operand is a string too.
\<close>

fun add_str :: "pyobj \<Rightarrow> string \<Rightarrow> exn + string" where
  "add_str (PStr a) s = Inr (a @ s)"
| "add_str _ s = Inl TypeError"

fun str_add :: "string \<Rightarrow> pyobj \<Rightarrow> exn + string" where
  "str_add s (PStr b) = Inr (s @ b)"
| "str_add s _ = Inl TypeError"

text \<open>\<^verbatim>\<open>obj.get(key, default)\<close>: only a dictionary has the method.\<close>

fun get :: "pyobj \<Rightarrow> string \<Rightarrow> pyobj \<Rightarrow> exn + pyobj" where
  "get (PDict kvs) k d = Inr (case map_of kvs k of None \<Rightarrow> d | Some v \<Rightarrow> v)"
| "get _ k d = Inl AttributeError"

text \<open>
  \<^verbatim>\<open>for x in obj\<close>: a list yields its elements, a string its characters, a dictionary its
  keys; nothing else among the decoded values is iterable.
\<close>

fun iterate :: "pyobj \<Rightarrow> exn + pyobj list" where
  "iterate (PList xs) = Inr xs"
| "iterate (PStr s) = Inr (map (\<lambda>c. PStr [c]) s)"
| "iterate (PDict kvs) = Inr (map (\<lambda>kv. PStr (fst kv)) kvs)"
| "iterate _ = Inl TypeError"

section \<open>The sentiment label\<close>

text \<open>
  Compound scores are Python floats compared with the literals \<^verbatim>\<open>0.05\<close> and \<^verbatim>\<open>-0.05\<close>;
  they are modelled as reals with the same order. Line 39 (batch loop) and line 114
  (custom URL) are two copies of one conditional expression.
\<close>

definition sentiment_class :: "real \<Rightarrow> string" where
  "sentiment_class compound =
     (if compound > 0.05 then ''positive''
      else if compound < - 0.05 then ''negative''
      else ''neutral'')"

definition sentiment_label :: "real \<Rightarrow> string" where
  "sentiment_label compound =
     (if compound > 0.05 then ''positive''
      else if compound < - 0.05 then ''negative''
      else ''neutral'')"

section \<open>The collaborators of a render pass\<close>

text \<open>
  Everything the script obtains from outside is a field of the world of one render pass:
  the text typed into the two input widgets, the answer of \<^verbatim>\<open>requests.get\<close>, the compound
  score \<^verbatim>\<open>analyzer.polarity_scores(text)["compound"]\<close>, the conversion \<^verbatim>\<open>str(x)\<close> of
  numbers, lists and dictionaries, the date parser behind \<^verbatim>\<open>pd.to_datetime\<close> (a time
  stamp is a number of nanoseconds, \<open>None\<close> is the missing value NaT), and the page
  extraction of \<^verbatim>\<open>newspaper.Article\<close> (\<open>Inl d\<close>: an exception with description \<open>d\<close> was
  raised by the import, the download or the parse; \<open>Inr (title, text)\<close> otherwise).
\<close>

record response =
  status_code :: int
  json :: "exn + pyobj"

record world =
  api_key :: string
  requests_get :: "string \<Rightarrow> (string \<times> pyobj) list \<Rightarrow> exn + response"
  polarity_compound :: "string \<Rightarrow> real"
  str_other :: "pyobj \<Rightarrow> string"
  parse_datetime :: "pyobj \<Rightarrow> exn + int option"
  custom_url :: string
  newspaper_article :: "string \<Rightarrow> string + string \<times> string"

definition andthen :: "exn + 'a \<Rightarrow> ('a \<Rightarrow> exn + 'b) \<Rightarrow> exn + 'b" where
  "andthen r f = (case r of Inl e \<Rightarrow> Inl e | Inr x \<Rightarrow> f x)"

text \<open>\<^verbatim>\<open>str(x)\<close>, as an f-string applies it to a value.\<close>

definition py_str :: "world \<Rightarrow> pyobj \<Rightarrow> string" where
  "py_str w x =
     (case x of
        PStr s \<Rightarrow> s
      | PNone \<Rightarrow> ''None''
      | PBool b \<Rightarrow> (if b then ''True'' else ''False'')
      | _ \<Rightarrow> str_other w x)"

section \<open>Fetch parameters (lines 18 to 25)\<close>

definition url :: string where
  "url = ''https://newsapi.org/v2/everything''"

definition params :: "string \<Rightarrow> (string \<times> pyobj) list" where
  "params key =
     [(''q'', PStr ''stock market OR finance OR bitcoin OR earnings''),
      (''language'', PStr ''en''),
      (''sortBy'', PStr ''publishedAt''),
      (''pageSize'', PNum 15),
      (''apiKey'', PStr key)]"

section \<open>The transformation loop (lines 32 to 48)\<close>

text \<open>
  One row of \<^verbatim>\<open>data\<close>. The type of the Title and Published At cells changes later
  (line 58 puts an HTML anchor into a copy, line 89 parses the time stamps), so the record
  is polymorphic in both.
\<close>

record ('t, 'p) article_row =
  Title :: 't
  Description :: pyobj
  URL :: pyobj
  Sentiment :: string
  Compound :: real
  Source :: pyobj
  Published_At :: 'p

text \<open>Line 37.\<close>

definition content :: "pyobj \<Rightarrow> exn + string" where
  "content article =
     andthen (get article ''title'' PNone) (\<lambda>title.
     andthen (add_str (py_or title (PStr [])) '' '') (\<lambda>s.
     andthen (get article ''description'' PNone) (\<lambda>description.
     str_add s (py_or description (PStr [])))))"

text \<open>Lines 37 to 48: the body of the loop, the dictionary appended to \<^verbatim>\<open>data\<close>.\<close>

definition loop_body :: "world \<Rightarrow> pyobj \<Rightarrow> exn + (pyobj, pyobj) article_row" where
  "loop_body w article =
     andthen (content article) (\<lambda>c.
     let compound = polarity_compound w c in
     andthen (get article ''title'' PNone) (\<lambda>title.
     andthen (get article ''description'' PNone) (\<lambda>description.
     andthen (get article ''url'' PNone) (\<lambda>link.
     andthen (get article ''source'' (PDict [])) (\<lambda>source.
     andthen (get source ''name'' (PStr [])) (\<lambda>name.
     andthen (get article ''publishedAt'' PNone) (\<lambda>published.
     Inr \<lparr>Title = title, Description = description, URL = link,
          Sentiment = sentiment_class compound, Compound = compound,
          Source = name, Published_At = published\<rparr>)))))))"

text \<open>Lines 35, 36 and 40: \<^verbatim>\<open>data = []\<close>, then one \<^verbatim>\<open>data.append\<close> per article.\<close>

fun for_articles ::
  "world \<Rightarrow> (pyobj, pyobj) article_row list \<Rightarrow> pyobj list \<Rightarrow> exn + (pyobj, pyobj) article_row list"
  where
  "for_articles w data [] = Inr data"
| "for_articles w data (article # rest) =
     (case loop_body w article of
        Inl e \<Rightarrow> Inl e
      | Inr row \<Rightarrow> for_articles w (data @ [row]) rest)"

text \<open>Line 32.\<close>

definition articles :: "response \<Rightarrow> exn + pyobj" where
  "articles resp = andthen (json resp) (\<lambda>body. get body ''articles'' (PList []))"

definition build_data :: "world \<Rightarrow> response \<Rightarrow> exn + (pyobj, pyobj) article_row list" where
  "build_data w resp =
     andthen (articles resp) (\<lambda>arts.
     andthen (iterate arts) (\<lambda>xs. for_articles w [] xs))"

section \<open>What a render pass shows\<close>

text \<open>
  The calls into Streamlit, Altair and the HTTP client are the observable effects of a
  pass; each is an event, in the order of execution. A chart or table event carries the
  frame handed to the renderer. The pictographs that open the headings are written as
  their UTF-8 bytes.
\<close>

datatype chart =
    Arc "(string \<times> nat) list"
  | Bar "(pyobj, pyobj) article_row list"
  | Line "(pyobj, int option) article_row list"

datatype event =
    SetPageConfig string string
  | StTitle string
  | SidebarTextInput string
  | StWarning string
  | StError string
  | HttpGet string "(string \<times> pyobj) list"
  | Subheader string
  | StWrite string
  | WriteHtml "(string \<times> string \<times> real \<times> pyobj \<times> pyobj) list"
  | AltairChart chart
  | DownloadButton string "(pyobj, int option) article_row list" string string
  | TextInput string
  | Markdown string
  | Expander string string

text \<open>
  A pass ends by running off the end of the script, by \<^verbatim>\<open>st.stop()\<close>, or by an
  exception nobody catches.
\<close>

datatype outcome = Completed | Stopped | Uncaught exn

definition emit :: "event list \<Rightarrow> event list \<times> outcome \<Rightarrow> event list \<times> outcome" where
  "emit evs rest = (evs @ fst rest, snd rest)"

definition pictograph :: "nat \<Rightarrow> string" where
  "pictograph b = [CHR 0xF0, CHR 0x9F, char_of (b div 256), char_of (b mod 256)]"

section \<open>The article table (lines 52 to 61)\<close>

definition make_clickable :: "world \<Rightarrow> pyobj \<Rightarrow> pyobj \<Rightarrow> string" where
  "make_clickable w link text =
     ''<a href='' @ [CHR 0x27] @ py_str w link @ [CHR 0x27] @ '' target='' @ [CHR 0x27]
       @ ''_blank'' @ [CHR 0x27] @ ''>'' @ py_str w text @ ''</a>''"

text \<open>Line 58, the text of the link of one row.\<close>

definition link_text :: "(pyobj, 'p) article_row \<Rightarrow> pyobj" where
  "link_text x = (if truthy (Title x) then Title x else PStr ''View Article'')"

text \<open>
  Lines 50, 57 and 58. \<^verbatim>\<open>pd.DataFrame(data)\<close> takes its columns from the keys of the
  dictionaries, so the frame of an empty list has no rows and no columns. On such a frame
  the row-wise \<^verbatim>\<open>apply\<close> has nothing to call the function on and returns a frame without
  columns, and assigning that to the column Title raises ValueError (pandas 2; the
  selection of the absent columns in line 61 raises KeyError in every version). On a frame
  with rows the function is applied to each row, and a cell holding \<^verbatim>\<open>None\<close> reads back as
  \<^verbatim>\<open>None\<close>.
\<close>

definition styled_rows :: "world \<Rightarrow> (pyobj, pyobj) article_row list \<Rightarrow> exn + (string, pyobj) article_row list" where
  "styled_rows w df =
     (if df = [] then Inl ValueError
      else Inr (map (\<lambda>x. \<lparr>Title = make_clickable w (URL x) (link_text x),
                           Description = Description x, URL = URL x,
                           Sentiment = Sentiment x, Compound = Compound x,
                           Source = Source x, Published_At = Published_At x\<rparr>) df))"

text \<open>Line 61, the five columns selected for the table.\<close>

definition table_columns :: "(string, pyobj) article_row \<Rightarrow> string \<times> string \<times> real \<times> pyobj \<times> pyobj" where
  "table_columns x = (Title x, Sentiment x, Compound x, Source x, Published_At x)"

section \<open>The charts and the export (lines 63 to 101)\<close>

text \<open>
  Line 65, \<^verbatim>\<open>value_counts\<close>: the labels that occur, each with its number of rows, the most
  frequent first.
\<close>

definition value_counts :: "string list \<Rightarrow> (string \<times> nat) list" where
  "value_counts xs =
     sort_key (\<lambda>p. - int (snd p)) (map (\<lambda>l. (l, count_list xs l)) (rev (remdups (rev xs))))"

text \<open>
  Line 89. \<^verbatim>\<open>pd.to_datetime\<close> converts the column cell by cell: \<^verbatim>\<open>None\<close> becomes the
  missing value NaT, anything else goes to the parser, whose exception is not caught.
\<close>

definition to_datetime :: "world \<Rightarrow> pyobj \<Rightarrow> exn + int option" where
  "to_datetime w x = (if x = PNone then Inr None else parse_datetime w x)"

fun to_datetime_column ::
  "world \<Rightarrow> (pyobj, pyobj) article_row list \<Rightarrow> exn + (pyobj, int option) article_row list"
  where
  "to_datetime_column w [] = Inr []"
| "to_datetime_column w (x # xs) =
     andthen (to_datetime w (Published_At x)) (\<lambda>t.
     andthen (to_datetime_column w xs) (\<lambda>ys.
     Inr (\<lparr>Title = Title x, Description = Description x, URL = URL x,
           Sentiment = Sentiment x, Compound = Compound x,
           Source = Source x, Published_At = t\<rparr> # ys)))"

text \<open>
  Line 90. \<^verbatim>\<open>sort_values\<close> returns a new frame, ascending in the column, the rows without
  a time stamp last; the frame it is called on stays as it is.
\<close>

definition timestamp :: "('t, int option) article_row \<Rightarrow> int" where
  "timestamp x = (case Published_At x of Some t \<Rightarrow> t | None \<Rightarrow> 0)"

definition sort_values :: "('t, int option) article_row list \<Rightarrow> ('t, int option) article_row list" where
  "sort_values df =
     sort_key timestamp (filter (\<lambda>x. Published_At x \<noteq> None) df)
       @ filter (\<lambda>x. Published_At x = None) df"

section \<open>The custom URL (lines 103 to 121)\<close>

text \<open>
  The \<^verbatim>\<open>try\<close> block catches every exception of the import, the download and the parse;
  the three calls that show the result come after all of them.
\<close>

definition analyze_custom_url :: "world \<Rightarrow> event list" where
  "analyze_custom_url w =
     [Subheader (pictograph 0x948D @ '' Analyze Custom News URL''),
      TextInput ''Paste a news article URL to analyze its sentiment'']
     @ (if custom_url w = [] then []
        else (case newspaper_article w (custom_url w) of
                Inl reason \<Rightarrow> [StError (''Failed to analyze the article. Reason: '' @ reason)]
              | Inr (title, text) \<Rightarrow>
                  (let article_text = title @ '' '' @ text;
                       compound = polarity_compound w article_text
                   in [Markdown (''**Title:** '' @ title),
                       Markdown (''**Sentiment:** `'' @ sentiment_label compound
                                 @ ''` with score `'' @ py_str w (PNum compound) @ ''`''),
                       Expander ''View full article text'' text])))"

section \<open>The render pass\<close>

text \<open>Lines 50 to 121, once \<^verbatim>\<open>data\<close> is built.\<close>

definition dashboard :: "world \<Rightarrow> (pyobj, pyobj) article_row list \<Rightarrow> event list \<times> outcome" where
  "dashboard w df =
     emit [Subheader (pictograph 0x93B0 @ '' Articles & Sentiment'')]
     (case styled_rows w df of
        Inl e \<Rightarrow> ([], Uncaught e)
      | Inr styled_df \<Rightarrow>
          emit [StWrite ''Click on a title to read the full article.'',
                WriteHtml (map table_columns styled_df),
                Subheader (pictograph 0x938A @ '' Sentiment Distribution''),
                AltairChart (Arc (value_counts (map Sentiment df))),
                Subheader (pictograph 0x9389 @ '' Article Sentiment Scores''),
                AltairChart (Bar df),
                Subheader (pictograph 0x9385 @ '' Sentiment Over Time'')]
          (case to_datetime_column w df of
             Inl e \<Rightarrow> ([], Uncaught e)
           | Inr parsed \<Rightarrow>
               emit [AltairChart (Line (sort_values parsed)),
                     DownloadButton ''Download CSV'' parsed
                       ''financial_news_sentiment.csv'' ''text/csv'']
               (analyze_custom_url w, Completed)))"

text \<open>Lines 7 to 30, then the rest.\<close>

definition run :: "world \<Rightarrow> event list \<times> outcome" where
  "run w =
     emit [SetPageConfig ''Financial News Sentiment'' ''wide'',
           StTitle (pictograph 0x9388 @ '' Financial News Sentiment Dashboard''),
           SidebarTextInput ''Enter your NewsAPI Key'']
     (if api_key w = [] then
        ([StWarning ''Please enter your NewsAPI key in the sidebar.''], Stopped)
      else
        emit [HttpGet url (params (api_key w))]
        (case requests_get w url (params (api_key w)) of
           Inl e \<Rightarrow> ([], Uncaught e)
         | Inr resp \<Rightarrow>
             if status_code resp \<noteq> 200 then
               ([StError ''Failed to fetch articles. Check your API key or try again later.''],
                Stopped)
             else
               (case build_data w resp of
                  Inl e \<Rightarrow> ([], Uncaught e)
                | Inr data \<Rightarrow> dashboard w data)))"

section \<open>Raw articles, views and a sample world\<close>

text \<open>
  The raw article of the news service: a dictionary whose title and description are text
  or missing (\<^verbatim>\<open>null\<close> or no key) and whose source, when there is one, is a dictionary.
  The URL, the name of the source and the time stamp are not constrained.
\<close>

fun text_or_absent :: "pyobj option \<Rightarrow> bool" where
  "text_or_absent None = True"
| "text_or_absent (Some PNone) = True"
| "text_or_absent (Some (PStr s)) = True"
| "text_or_absent (Some _) = False"

fun dict_or_absent :: "pyobj option \<Rightarrow> bool" where
  "dict_or_absent None = True"
| "dict_or_absent (Some (PDict kvs)) = True"
| "dict_or_absent (Some _) = False"

fun raw_article :: "pyobj \<Rightarrow> bool" where
  "raw_article (PDict kvs) =
     (text_or_absent (map_of kvs ''title'') \<and> text_or_absent (map_of kvs ''description'')
      \<and> dict_or_absent (map_of kvs ''source''))"
| "raw_article _ = False"

text \<open>The text a missing or textual field contributes to the scored content.\<close>

fun text_of :: "pyobj option \<Rightarrow> string" where
  "text_of (Some (PStr s)) = s"
| "text_of _ = []"

text \<open>The value \<^verbatim>\<open>d.get(k)\<close> reads.\<close>

definition field :: "(string \<times> pyobj) list \<Rightarrow> string \<Rightarrow> pyobj" where
  "field kvs k = (case map_of kvs k of None \<Rightarrow> PNone | Some v \<Rightarrow> v)"

text \<open>The events that render the table, a chart or the export.\<close>

fun is_view :: "event \<Rightarrow> bool" where
  "is_view (WriteHtml t) = True"
| "is_view (AltairChart c) = True"
| "is_view (DownloadButton l d f m) = True"
| "is_view _ = False"

fun is_http :: "event \<Rightarrow> bool" where
  "is_http (HttpGet u p) = True"
| "is_http _ = False"

text \<open>
  A sample world: three articles (the second without title and source, the third without
  any field), a scorer that knows two texts, a date parser that knows two time stamps, a
  page extraction that reaches one address.
\<close>

definition demo_articles :: "pyobj list" where
  "demo_articles =
     [PDict [(''title'', PStr ''Stocks rally''), (''description'', PStr ''Markets up''),
             (''url'', PStr ''https://example.com/a''),
             (''source'', PDict [(''id'', PNone), (''name'', PStr ''Wire'')]),
             (''publishedAt'', PStr ''2024-05-02T10:00:00Z'')],
      PDict [(''title'', PNone), (''description'', PStr ''Losses widen''),
             (''url'', PStr ''https://example.com/b''),
             (''publishedAt'', PStr ''2024-05-01T09:00:00Z'')],
      PDict []]"

definition demo_compound :: "string \<Rightarrow> real" where
  "demo_compound s =
     (if s = ''Stocks rally Markets up'' then 0.6
      else if s = '' Losses widen'' then - 0.2
      else 0)"

definition demo_parse :: "pyobj \<Rightarrow> exn + int option" where
  "demo_parse x =
     (if x = PStr ''2024-05-02T10:00:00Z'' then Inr (Some 1714644000)
      else if x = PStr ''2024-05-01T09:00:00Z'' then Inr (Some 1714554000)
      else Inl (External ''Unknown datetime string format''))"

definition demo_extraction :: "string \<Rightarrow> string + string \<times> string" where
  "demo_extraction u =
     (if u = ''https://example.com/a'' then Inr (''Stocks rally'', ''Markets up'')
      else Inl ''Article download failed'')"

definition demo_world :: "string \<Rightarrow> int \<Rightarrow> pyobj \<Rightarrow> world" where
  "demo_world key status body =
     \<lparr>api_key = key,
      requests_get = (\<lambda>u p. Inr \<lparr>status_code = status, json = Inr body\<rparr>),
      polarity_compound = demo_compound,
      str_other = (\<lambda>x. ''?''),
      parse_datetime = demo_parse,
      custom_url = [],
      newspaper_article = demo_extraction\<rparr>"

definition demo_rows :: "(pyobj, pyobj) article_row list" where
  "demo_rows =
     [\<lparr>Title = PStr ''Stocks rally'', Description = PStr ''Markets up'',
       URL = PStr ''https://example.com/a'', Sentiment = ''positive'', Compound = 0.6,
       Source = PStr ''Wire'', Published_At = PStr ''2024-05-02T10:00:00Z''\<rparr>,
      \<lparr>Title = PNone, Description = PStr ''Losses widen'',
       URL = PStr ''https://example.com/b'', Sentiment = ''negative'', Compound = - 0.2,
       Source = PStr [], Published_At = PStr ''2024-05-01T09:00:00Z''\<rparr>,
      \<lparr>Title = PNone, Description = PNone, URL = PNone, Sentiment = ''neutral'',
       Compound = 0, Source = PStr [], Published_At = PNone\<rparr>]"

text \<open>The sample rows after line 89, and a frame whose only time stamp is no date.\<close>

definition demo_parsed :: "(pyobj, int option) article_row list" where
  "demo_parsed =
     [\<lparr>Title = PStr ''Stocks rally'', Description = PStr ''Markets up'',
       URL = PStr ''https://example.com/a'', Sentiment = ''positive'', Compound = 0.6,
       Source = PStr ''Wire'', Published_At = Some 1714644000\<rparr>,
      \<lparr>Title = PNone, Description = PStr ''Losses widen'',
       URL = PStr ''https://example.com/b'', Sentiment = ''negative'', Compound = - 0.2,
       Source = PStr [], Published_At = Some 1714554000\<rparr>,
      \<lparr>Title = PNone, Description = PNone, URL = PNone, Sentiment = ''neutral'',
       Compound = 0, Source = PStr [], Published_At = None\<rparr>]"

definition demo_malformed :: "(pyobj, pyobj) article_row list" where
  "demo_malformed =
     [\<lparr>Title = PStr ''Stocks rally'', Description = PStr ''Markets up'',
       URL = PStr ''https://example.com/a'', Sentiment = ''positive'', Compound = 0.6,
       Source = PStr ''Wire'', Published_At = PStr ''yesterday''\<rparr>]"

section \<open>Basic facts\<close>

lemma andthen_simps [simp]:
  "andthen (Inl e) f = Inl e" "andthen (Inr x) f = f x"
  by (simp_all add: andthen_def)

lemma andthen_Inr_iff: "andthen r f = Inr y \<longleftrightarrow> (\<exists>x. r = Inr x \<and> f x = Inr y)"
  by (cases r) simp_all

lemma andthen_Inl_iff: "andthen r f = Inl e \<longleftrightarrow> (r = Inl e \<or> (\<exists>x. r = Inr x \<and> f x = Inl e))"
  by (cases r) simp_all

lemma for_articles_length:
  "for_articles w acc xs = Inr data \<Longrightarrow> length data = length acc + length xs"
proof (induction xs arbitrary: acc)
  case Nil
  then show ?case by simp
next
  case (Cons a xs)
  then show ?case by (cases "loop_body w a") auto
qed

lemma demo_data:
  "for_articles (demo_world k s b) [] demo_articles = Inr demo_rows"
  by (simp add: demo_articles_def demo_rows_def demo_world_def loop_body_def content_def py_or_def
      demo_compound_def sentiment_class_def Let_def)

lemma text_or_absent_cases:
  "text_or_absent v \<Longrightarrow> v = None \<or> v = Some PNone \<or> (\<exists>s. v = Some (PStr s))"
  by (cases v rule: text_or_absent.cases) simp_all

lemma dict_or_absent_cases:
  "dict_or_absent v \<Longrightarrow> v = None \<or> (\<exists>kvs. v = Some (PDict kvs))"
  by (cases v rule: dict_or_absent.cases) simp_all

lemma content_raw:
  assumes "text_or_absent (map_of kvs ''title'')" "text_or_absent (map_of kvs ''description'')"
  shows "content (PDict kvs) = Inr (text_of (map_of kvs ''title'') @ '' '' @ text_of (map_of kvs ''description''))"
  using text_or_absent_cases [OF assms(1)] text_or_absent_cases [OF assms(2)]
  by (auto simp: content_def py_or_def)

lemma loop_body_raw:
  assumes "raw_article (PDict kvs)"
  shows "loop_body w (PDict kvs) =
     Inr \<lparr>Title = field kvs ''title'', Description = field kvs ''description'',
          URL = field kvs ''url'',
          Sentiment = sentiment_class (polarity_compound w
             (text_of (map_of kvs ''title'') @ '' '' @ text_of (map_of kvs ''description''))),
          Compound = polarity_compound w
             (text_of (map_of kvs ''title'') @ '' '' @ text_of (map_of kvs ''description'')),
          Source = (case map_of kvs ''source'' of
                      Some (PDict s) \<Rightarrow> (case map_of s ''name'' of None \<Rightarrow> PStr [] | Some v \<Rightarrow> v)
                    | _ \<Rightarrow> PStr []),
          Published_At = field kvs ''publishedAt''\<rparr>"
proof -
  from assms have t: "text_or_absent (map_of kvs ''title'')"
    and d: "text_or_absent (map_of kvs ''description'')"
    and s: "dict_or_absent (map_of kvs ''source'')" by simp_all
  show ?thesis
    using dict_or_absent_cases [OF s]
    by (auto simp: loop_body_def content_raw [OF t d] field_def Let_def)
qed

lemma loop_body_total: "raw_article a \<Longrightarrow> \<exists>row. loop_body w a = Inr row"
  by (cases a) (simp_all add: loop_body_raw)

lemma for_articles_total:
  "\<forall>a\<in>set xs. raw_article a \<Longrightarrow> \<exists>data. for_articles w acc xs = Inr data"
proof (induction xs arbitrary: acc)
  case Nil
  then show ?case by simp
next
  case (Cons a xs)
  then obtain row where "loop_body w a = Inr row" using loop_body_total by fastforce
  with Cons show ?case by simp
qed

lemma to_datetime_column_fields:
  "to_datetime_column w df = Inr parsed \<Longrightarrow>
     map Compound parsed = map Compound df \<and> map Title parsed = map Title df
     \<and> map Sentiment parsed = map Sentiment df \<and> length parsed = length df"
proof (induction df arbitrary: parsed)
  case Nil
  then show ?case by simp
next
  case (Cons x xs)
  then show ?case by (auto simp: andthen_Inr_iff)
qed

lemma mset_sort_values: "mset (sort_values df) = mset df"
  by (simp add: sort_values_def)

lemma sorted_sort_values:
  "sorted (map timestamp (filter (\<lambda>x. Published_At x \<noteq> None) (sort_values df)))"
proof -
  have "filter (\<lambda>x. Published_At x \<noteq> None) (sort_values df)
          = sort_key timestamp (filter (\<lambda>x. Published_At x \<noteq> None) df)"
    by (auto simp: sort_values_def filter_sort intro!: filter_False)
  then show ?thesis by simp
qed

lemma styled_rows_nonempty:
  "df \<noteq> [] \<Longrightarrow> \<exists>styled. styled_rows w df = Inr styled \<and> length styled = length df"
  by (simp add: styled_rows_def)

lemma dashboard_completes:
  "styled_rows w df = Inr styled \<Longrightarrow> to_datetime_column w df = Inr parsed
     \<Longrightarrow> snd (dashboard w df) = Completed"
  by (simp add: dashboard_def emit_def)

lemma demo_to_datetime:
  "to_datetime_column (demo_world k s b) demo_rows = Inr demo_parsed"
  by (simp add: demo_rows_def demo_parsed_def demo_world_def to_datetime_def demo_parse_def)

lemma demo_sorted:
  "sort_values demo_parsed = [demo_parsed ! 1, demo_parsed ! 0, demo_parsed ! 2]"
  by (simp add: sort_values_def demo_parsed_def timestamp_def)

lemma to_datetime_column_rejects:
  "x \<in> set df \<Longrightarrow> Published_At x \<noteq> PNone \<Longrightarrow> parse_datetime w (Published_At x) = Inl e0
     \<Longrightarrow> \<exists>e. to_datetime_column w df = Inl e"
proof (induction df)
  case Nil
  then show ?case by simp
next
  case (Cons y ys)
  show ?case
  proof (cases "to_datetime w (Published_At y)")
    case (Inl e)
    then show ?thesis by simp
  next
    case (Inr t)
    with Cons.prems have "x \<in> set ys" by (auto simp: to_datetime_def)
    from Cons.IH [OF this Cons.prems(2,3)] obtain e where "to_datetime_column w ys = Inl e" ..
    with Inr show ?thesis by simp
  qed
qed

lemma to_datetime_column_error:
  "to_datetime_column w df = Inl e \<Longrightarrow>
     \<exists>y\<in>set df. Published_At y \<noteq> PNone \<and> parse_datetime w (Published_At y) = Inl e"
proof (induction df)
  case Nil
  then show ?case by simp
next
  case (Cons y ys)
  then show ?case
    by (auto simp: andthen_Inl_iff to_datetime_def split: if_splits)
qed

lemma loop_body_custom:
  "loop_body (w\<lparr>custom_url := u, newspaper_article := n\<rparr>) a = loop_body w a"
  by (simp add: loop_body_def)

lemma for_articles_custom:
  "for_articles (w\<lparr>custom_url := u, newspaper_article := n\<rparr>) acc xs = for_articles w acc xs"
  by (induction xs arbitrary: acc) (simp_all add: loop_body_custom split: sum.splits)

lemma build_data_custom:
  "build_data (w\<lparr>custom_url := u, newspaper_article := n\<rparr>) resp = build_data w resp"
  by (simp add: build_data_def for_articles_custom)

lemma py_str_custom:
  "py_str (w\<lparr>custom_url := u, newspaper_article := n\<rparr>) x = py_str w x"
  by (cases x) (simp_all add: py_str_def)

lemma styled_rows_custom:
  "styled_rows (w\<lparr>custom_url := u, newspaper_article := n\<rparr>) df = styled_rows w df"
  by (simp add: styled_rows_def make_clickable_def py_str_custom)

lemma to_datetime_column_custom:
  "to_datetime_column (w\<lparr>custom_url := u, newspaper_article := n\<rparr>) df = to_datetime_column w df"
  by (induction df) (simp_all add: to_datetime_def)

lemma analyze_custom_url_no_view: "filter is_view (analyze_custom_url w) = []"
  by (simp add: analyze_custom_url_def Let_def split: sum.splits prod.splits)

lemma dashboard_custom:
  "\<exists>evs. (\<forall>u n. dashboard (w\<lparr>custom_url := u, newspaper_article := n\<rparr>) df =
            (if snd (dashboard w df) = Completed
             then (evs @ analyze_custom_url (w\<lparr>custom_url := u, newspaper_article := n\<rparr>), Completed)
             else dashboard w df))"
proof (cases "styled_rows w df")
  case (Inl e)
  then show ?thesis by (simp add: dashboard_def emit_def styled_rows_custom)
next
  case s: (Inr styled)
  show ?thesis
  proof (cases "to_datetime_column w df")
    case (Inl e)
    with s show ?thesis
      by (simp add: dashboard_def emit_def styled_rows_custom to_datetime_column_custom)
  next
    case (Inr parsed)
    with s show ?thesis
      by (simp add: dashboard_def emit_def styled_rows_custom to_datetime_column_custom)
  qed
qed

lemma run_custom:
  "\<exists>evs. (\<forall>u n. run (w\<lparr>custom_url := u, newspaper_article := n\<rparr>) =
            (if snd (run w) = Completed
             then (evs @ analyze_custom_url (w\<lparr>custom_url := u, newspaper_article := n\<rparr>), Completed)
             else run w))"
proof -
  let ?hd = "[SetPageConfig ''Financial News Sentiment'' ''wide'',
           StTitle (pictograph 0x9388 @ '' Financial News Sentiment Dashboard''),
           SidebarTextInput ''Enter your NewsAPI Key'']"
  consider (nokey) "api_key w = []"
    | (neterr) e where "api_key w \<noteq> []" "requests_get w url (params (api_key w)) = Inl e"
    | (status) resp where "api_key w \<noteq> []" "requests_get w url (params (api_key w)) = Inr resp"
        "status_code resp \<noteq> 200"
    | (bad) resp e where "api_key w \<noteq> []" "requests_get w url (params (api_key w)) = Inr resp"
        "status_code resp = 200" "build_data w resp = Inl e"
    | (ok) resp data where "api_key w \<noteq> []" "requests_get w url (params (api_key w)) = Inr resp"
        "status_code resp = 200" "build_data w resp = Inr data"
  proof (cases "requests_get w url (params (api_key w))")
    case (Inl e)
    then show ?thesis using nokey neterr by blast
  next
    case (Inr resp)
    then show ?thesis
      using nokey status bad ok by (cases "build_data w resp") blast+
  qed
  then show ?thesis
  proof cases
    case nokey
    then show ?thesis by (simp add: run_def emit_def)
  next
    case neterr
    then show ?thesis by (simp add: run_def emit_def)
  next
    case status
    then show ?thesis by (simp add: run_def emit_def)
  next
    case bad
    then show ?thesis by (simp add: run_def emit_def build_data_custom)
  next
    case ok
    from dashboard_custom [of w data] obtain evs where
      d: "\<And>u n. dashboard (w\<lparr>custom_url := u, newspaper_article := n\<rparr>) data =
            (if snd (dashboard w data) = Completed
             then (evs @ analyze_custom_url (w\<lparr>custom_url := u, newspaper_article := n\<rparr>), Completed)
             else dashboard w data)" by blast
    have r: "run w = emit (?hd @ [HttpGet url (params (api_key w))]) (dashboard w data)"
      using ok by (simp add: run_def emit_def)
    have r': "run (w\<lparr>custom_url := u, newspaper_article := n\<rparr>)
        = emit (?hd @ [HttpGet url (params (api_key w))])
            (dashboard (w\<lparr>custom_url := u, newspaper_article := n\<rparr>) data)" for u n
      using ok by (simp add: run_def emit_def build_data_custom)
    show ?thesis
    proof (intro exI [of _ "?hd @ [HttpGet url (params (api_key w))] @ evs"] allI)
      fix u n
      show "run (w\<lparr>custom_url := u, newspaper_article := n\<rparr>) =
        (if snd (run w) = Completed
         then ((?hd @ [HttpGet url (params (api_key w))] @ evs)
                 @ analyze_custom_url (w\<lparr>custom_url := u, newspaper_article := n\<rparr>), Completed)
         else run w)"
        unfolding r r' d by (simp add: emit_def)
    qed
  qed
qed

lemma demo_run_completed:
  "snd (run ((demo_world ''secret'' 200 (PDict [(''articles'', PList demo_articles)]))
               \<lparr>custom_url := u\<rparr>)) = Completed"
proof -
  let ?d = "demo_world ''secret'' 200 (PDict [(''articles'', PList demo_articles)])"
  let ?r = "\<lparr>status_code = 200, json = Inr (PDict [(''articles'', PList demo_articles)])\<rparr>"
  have w: "?d\<lparr>custom_url := u, newspaper_article := demo_extraction\<rparr> = ?d\<lparr>custom_url := u\<rparr>"
    by (simp add: demo_world_def)
  have "build_data ?d ?r = Inr demo_rows"
    by (simp add: build_data_def articles_def demo_data)
  with build_data_custom [where w = ?d and u = u and n = demo_extraction and resp = ?r]
  have b: "build_data (?d\<lparr>custom_url := u\<rparr>) ?r = Inr demo_rows"
    by (simp only: w)
  have "demo_rows \<noteq> []" by (simp add: demo_rows_def)
  then obtain styled where s: "styled_rows (?d\<lparr>custom_url := u\<rparr>) demo_rows = Inr styled"
    using styled_rows_nonempty by blast
  from to_datetime_column_custom [where w = ?d and u = u and n = demo_extraction and df = demo_rows] demo_to_datetime [of "''secret''" 200 "PDict [(''articles'', PList demo_articles)]"]
  have t: "to_datetime_column (?d\<lparr>custom_url := u\<rparr>) demo_rows = Inr demo_parsed"
    by (simp only: w)
  have d: "snd (dashboard (?d\<lparr>custom_url := u\<rparr>) demo_rows) = Completed"
    using s t by (rule dashboard_completes)
  have g: "requests_get ?d url (params ''secret'') = Inr ?r" and k: "api_key ?d = ''secret''"
    by (simp_all add: demo_world_def)
  have "snd (run (?d\<lparr>custom_url := u\<rparr>)) = snd (dashboard (?d\<lparr>custom_url := u\<rparr>) demo_rows)"
    by (simp add: run_def emit_def g k b)
  then show ?thesis using d by simp
qed

lemma styled_rows_nth:
  assumes "i < length df"
  shows "\<exists>styled. styled_rows w df = Inr styled \<and> length styled = length df
       \<and> Title (styled ! i) = make_clickable w (URL (df ! i)) (link_text (df ! i))
       \<and> fst (map table_columns styled ! i) = make_clickable w (URL (df ! i)) (link_text (df ! i))"
proof -
  from assms have "df \<noteq> []" by auto
  then show ?thesis using assms by (simp add: styled_rows_def table_columns_def)
qed

lemma dashboard_shows_table:
  "styled_rows w df = Inr styled \<Longrightarrow> WriteHtml (map table_columns styled) \<in> set (fst (dashboard w df))"
  by (cases "to_datetime_column w df") (simp_all add: dashboard_def emit_def)

lemma to_datetime_column_accepts:
  "\<forall>x\<in>set df. Published_At x = PNone \<or> (\<exists>t. parse_datetime w (Published_At x) = Inr t)
     \<Longrightarrow> \<exists>parsed. to_datetime_column w df = Inr parsed"
proof (induction df)
  case Nil
  then show ?case by simp
next
  case (Cons y ys)
  then obtain parsed where p: "to_datetime_column w ys = Inr parsed" by auto
  have "\<exists>t. to_datetime w (Published_At y) = Inr t"
  proof (cases "Published_At y = PNone")
    case True
    then show ?thesis by (simp add: to_datetime_def)
  next
    case False
    with Cons.prems show ?thesis by (simp add: to_datetime_def)
  qed
  then obtain t where "to_datetime w (Published_At y) = Inr t" ..
  with p show ?case by simp
qed

lemma to_datetime_column_absent:
  "to_datetime_column w df = Inr parsed \<Longrightarrow> i < length df \<Longrightarrow> Published_At (df ! i) = PNone
     \<Longrightarrow> Published_At (parsed ! i) = None"
proof (induction df arbitrary: parsed i)
  case Nil
  then show ?case by simp
next
  case (Cons y ys)
  from Cons.prems(1) obtain t ps where t: "to_datetime w (Published_At y) = Inr t"
    and ps: "to_datetime_column w ys = Inr ps"
    and parsed: "parsed = \<lparr>Title = Title y, Description = Description y, URL = URL y,
           Sentiment = Sentiment y, Compound = Compound y,
           Source = Source y, Published_At = t\<rparr> # ps"
    by (auto simp: andthen_Inr_iff)
  show ?case
  proof (cases i)
    case 0
    with Cons.prems(3) t parsed show ?thesis by (simp add: to_datetime_def)
  next
    case (Suc j)
    with Cons.prems Cons.IH [OF ps, of j] parsed show ?thesis by simp
  qed
qed

lemma sort_values_absent_last:
  assumes "i < length (sort_values df)" and "j < length (sort_values df)"
    and "Published_At (sort_values df ! i) = None" and "Published_At (sort_values df ! j) \<noteq> None"
  shows "j < i"
proof -
  let ?a = "sort_key timestamp (filter (\<lambda>x. Published_At x \<noteq> None) df)"
  let ?b = "filter (\<lambda>x. Published_At x = None) df"
  have s: "sort_values df = ?a @ ?b" by (simp add: sort_values_def)
  have a: "\<forall>x\<in>set ?a. Published_At x \<noteq> None" by simp
  have b: "\<forall>x\<in>set ?b. Published_At x = None" by simp
  have i: "\<not> i < length ?a"
  proof
    assume l: "i < length ?a"
    then have "?a ! i \<in> set ?a" by (rule nth_mem)
    moreover have "sort_values df ! i = ?a ! i"
      unfolding s using l by (simp only: nth_append if_True)
    ultimately show False using a assms(3) by metis
  qed
  have j: "j < length ?a"
  proof (rule ccontr)
    assume n: "\<not> j < length ?a"
    with assms(2) have "j - length ?a < length ?b" unfolding s by simp
    then have "?b ! (j - length ?a) \<in> set ?b" by (rule nth_mem)
    moreover have "sort_values df ! j = ?b ! (j - length ?a)"
      unfolding s using n by (simp add: nth_append)
    ultimately show False using b assms(4) by metis
  qed
  from i j show ?thesis by simp
qed

section \<open>The label of a score\<close>

text \<open>
  Claim C1. The label is positive exactly for a compound score above 0.05, negative exactly
  for one below -0.05 and neutral for every other score, the two boundary scores included.
  This holds for the expression of the batch loop (\<open>sentiment_class\<close>) and for the one of
  the custom URL path (\<open>sentiment_label\<close>); every row the loop appends carries the label of
  its own score, and the line shown for a custom URL carries the label of the score shown.
\<close>

theorem label_thresholds:
  "(sentiment_class c = ''positive'' \<longleftrightarrow> c > 0.05)
   \<and> (sentiment_class c = ''negative'' \<longleftrightarrow> c < - 0.05)
   \<and> (sentiment_class c = ''neutral'' \<longleftrightarrow> \<not> c > 0.05 \<and> \<not> c < - 0.05)
   \<and> sentiment_class 0.05 = ''neutral'' \<and> sentiment_class (- 0.05) = ''neutral''
   \<and> (sentiment_label c = ''positive'' \<longleftrightarrow> c > 0.05)
   \<and> (sentiment_label c = ''negative'' \<longleftrightarrow> c < - 0.05)
   \<and> (sentiment_label c = ''neutral'' \<longleftrightarrow> \<not> c > 0.05 \<and> \<not> c < - 0.05)
   \<and> sentiment_label 0.05 = ''neutral'' \<and> sentiment_label (- 0.05) = ''neutral''
   \<and> (\<forall>row. loop_body w article = Inr row \<longrightarrow> Sentiment row = sentiment_class (Compound row))
   \<and> (\<forall>title text. custom_url w \<noteq> [] \<and> newspaper_article w (custom_url w) = Inr (title, text) \<longrightarrow>
         analyze_custom_url w ! 3 =
           Markdown (''**Sentiment:** `''
             @ sentiment_label (polarity_compound w (title @ '' '' @ text))
             @ ''` with score `''
             @ py_str w (PNum (polarity_compound w (title @ '' '' @ text))) @ ''`''))"
proof -
  have batch: "Sentiment row = sentiment_class (Compound row)"
    if "loop_body w article = Inr row" for row
    using that by (auto simp: loop_body_def Let_def andthen_Inr_iff)
  have single: "analyze_custom_url w ! 3 =
           Markdown (''**Sentiment:** `''
             @ sentiment_label (polarity_compound w (title @ '' '' @ body))
             @ ''` with score `''
             @ py_str w (PNum (polarity_compound w (title @ '' '' @ body))) @ ''`'')"
    if "custom_url w \<noteq> []" "newspaper_article w (custom_url w) = Inr (title, body)" for title body
    using that by (simp add: analyze_custom_url_def Let_def)
  show ?thesis
    using batch single by (simp add: sentiment_class_def sentiment_label_def)
qed

theorem label_thresholds_witness:
  "sentiment_class 0.6 = ''positive'' \<and> sentiment_class (- 0.2) = ''negative''
   \<and> sentiment_class 0 = ''neutral'' \<and> sentiment_label 0.6 = ''positive''
   \<and> loop_body ((demo_world ''secret'' 200 PNone)\<lparr>custom_url := ''https://example.com/a''\<rparr>)
         (demo_articles ! 1) = Inr (demo_rows ! 1)
   \<and> Sentiment (demo_rows ! 1) = sentiment_class (Compound (demo_rows ! 1))
   \<and> Sentiment (demo_rows ! 1) = ''negative''
   \<and> analyze_custom_url ((demo_world ''secret'' 200 PNone)\<lparr>custom_url := ''https://example.com/a''\<rparr>) ! 3
       = Markdown ''**Sentiment:** `positive` with score `?`''"
proof -
  let ?w = "(demo_world ''secret'' 200 PNone)\<lparr>custom_url := ''https://example.com/a''\<rparr>"
  have row: "loop_body ?w (demo_articles ! 1) = Inr (demo_rows ! 1)"
    by (simp add: demo_articles_def demo_rows_def demo_world_def loop_body_def content_def
        py_or_def demo_compound_def sentiment_class_def Let_def)
  have u: "custom_url ?w \<noteq> []"
    and n: "newspaper_article ?w (custom_url ?w) = Inr (''Stocks rally'', ''Markets up'')"
    by (simp_all add: demo_world_def demo_extraction_def)
  from label_thresholds [of "0.6" ?w "demo_articles ! 1"] u n
  have m: "analyze_custom_url ?w ! 3 =
           Markdown (''**Sentiment:** `''
             @ sentiment_label (polarity_compound ?w (''Stocks rally'' @ '' '' @ ''Markets up''))
             @ ''` with score `''
             @ py_str ?w (PNum (polarity_compound ?w (''Stocks rally'' @ '' '' @ ''Markets up''))) @ ''`'')"
    by blast
  have m': "analyze_custom_url ?w ! 3 = Markdown ''**Sentiment:** `positive` with score `?`''"
    using m by (simp add: demo_world_def demo_compound_def py_str_def sentiment_label_def)
  have s: "Sentiment (demo_rows ! 1) = ''negative''" by (simp add: demo_rows_def)
  show ?thesis
    using label_thresholds [of "0.6" ?w "demo_articles ! 1"]
      label_thresholds [of "- 0.2" ?w "demo_articles ! 1"]
      label_thresholds [of 0 ?w "demo_articles ! 1"] row m' s
    by simp
qed

section \<open>The title shown and the text scored\<close>

text \<open>
  Claim C2. For an article whose title is missing or empty, the text of the link in the
  table is the literal View Article: in a frame of any length, the Title cell of its row,
  which is the first column of the table handed to the renderer, is the anchor of
  \<open>make_clickable\<close> around its URL with exactly that text. The score of the row is
  computed from the empty title, a space and the description, and not from the fallback
  text.
\<close>

theorem absent_title_fallback:
  assumes "loop_body w article = Inr row" and "get article ''title'' PNone = Inr title"
    and "\<not> truthy title" and "i < length df" and "df ! i = row"
  shows "link_text row = PStr ''View Article''
       \<and> make_clickable w (URL row) (link_text row) =
           ''<a href='' @ [CHR 0x27] @ py_str w (URL row) @ [CHR 0x27] @ '' target=''
             @ [CHR 0x27] @ ''_blank'' @ [CHR 0x27] @ ''>View Article</a>''
       \<and> (\<exists>styled. styled_rows w df = Inr styled \<and> length styled = length df
             \<and> Title (styled ! i) =
                 ''<a href='' @ [CHR 0x27] @ py_str w (URL row) @ [CHR 0x27] @ '' target=''
                   @ [CHR 0x27] @ ''_blank'' @ [CHR 0x27] @ ''>View Article</a>''
             \<and> fst (map table_columns styled ! i) =
                 ''<a href='' @ [CHR 0x27] @ py_str w (URL row) @ [CHR 0x27] @ '' target=''
                   @ [CHR 0x27] @ ''_blank'' @ [CHR 0x27] @ ''>View Article</a>''
             \<and> WriteHtml (map table_columns styled) \<in> set (fst (dashboard w df)))
       \<and> styled_rows w [row] =
           Inr [\<lparr>Title = make_clickable w (URL row) (PStr ''View Article''),
                 Description = Description row, URL = URL row, Sentiment = Sentiment row,
                 Compound = Compound row, Source = Source row,
                 Published_At = Published_At row\<rparr>]
       \<and> (\<exists>d desc. get article ''description'' PNone = Inr d \<and> py_or d (PStr []) = PStr desc
             \<and> content article = Inr ([] @ '' '' @ desc)
             \<and> Compound row = polarity_compound w ([] @ '' '' @ desc)
             \<and> content article \<noteq> Inr (''View Article'' @ '' '' @ desc))"
proof -
  from assms(1) obtain c where c: "content article = Inr c"
    and comp: "Compound row = polarity_compound w c" and t: "Title row = title"
    using assms(2) by (auto simp: loop_body_def Let_def andthen_Inr_iff)
  from assms(3) have o: "py_or title (PStr []) = PStr []" by (simp add: py_or_def)
  from c assms(2) o obtain d where d: "get article ''description'' PNone = Inr d"
    and s: "str_add '' '' (py_or d (PStr [])) = Inr c"
    by (auto simp: content_def andthen_Inr_iff)
  from s obtain desc where desc: "py_or d (PStr []) = PStr desc" and cc: "c = '' '' @ desc"
    by (cases "py_or d (PStr [])") auto
  have l: "link_text row = PStr ''View Article''"
    using t assms(3) by (simp add: link_text_def)
  have m: "make_clickable w (URL row) (link_text row) =
           ''<a href='' @ [CHR 0x27] @ py_str w (URL row) @ [CHR 0x27] @ '' target=''
             @ [CHR 0x27] @ ''_blank'' @ [CHR 0x27] @ ''>View Article</a>''"
    by (simp add: l make_clickable_def py_str_def)
  from styled_rows_nth [OF assms(4), of w] obtain styled where
    st: "styled_rows w df = Inr styled" "length styled = length df"
      "Title (styled ! i) = make_clickable w (URL (df ! i)) (link_text (df ! i))"
      "fst (map table_columns styled ! i) = make_clickable w (URL (df ! i)) (link_text (df ! i))"
    by blast
  have shown: "\<exists>styled. styled_rows w df = Inr styled \<and> length styled = length df
             \<and> Title (styled ! i) =
                 ''<a href='' @ [CHR 0x27] @ py_str w (URL row) @ [CHR 0x27] @ '' target=''
                   @ [CHR 0x27] @ ''_blank'' @ [CHR 0x27] @ ''>View Article</a>''
             \<and> fst (map table_columns styled ! i) =
                 ''<a href='' @ [CHR 0x27] @ py_str w (URL row) @ [CHR 0x27] @ '' target=''
                   @ [CHR 0x27] @ ''_blank'' @ [CHR 0x27] @ ''>View Article</a>''
             \<and> WriteHtml (map table_columns styled) \<in> set (fst (dashboard w df))"
    using st dashboard_shows_table [OF st(1)] m assms(5) by (intro exI [of _ styled]) simp
  have one: "styled_rows w [row] =
           Inr [\<lparr>Title = make_clickable w (URL row) (PStr ''View Article''),
                 Description = Description row, URL = URL row, Sentiment = Sentiment row,
                 Compound = Compound row, Source = Source row,
                 Published_At = Published_At row\<rparr>]"
    using l by (simp add: styled_rows_def)
  have scored: "\<exists>d desc. get article ''description'' PNone = Inr d \<and> py_or d (PStr []) = PStr desc
             \<and> content article = Inr ([] @ '' '' @ desc)
             \<and> Compound row = polarity_compound w ([] @ '' '' @ desc)
             \<and> content article \<noteq> Inr (''View Article'' @ '' '' @ desc)"
    using c comp d desc cc by simp
  from l m shown one scored show ?thesis by (intro conjI)
qed

theorem absent_title_fallback_witness:
  "link_text (demo_rows ! 1) = PStr ''View Article''
   \<and> content (demo_articles ! 1) = Inr '' Losses widen''
   \<and> Compound (demo_rows ! 1) = demo_compound '' Losses widen''
   \<and> \<not> truthy PNone \<and> (1::nat) < length demo_rows
   \<and> make_clickable (demo_world ''secret'' 200 PNone) (URL (demo_rows ! 1)) (link_text (demo_rows ! 1))
       = ''<a href='' @ [CHR 0x27] @ ''https://example.com/b'' @ [CHR 0x27] @ '' target=''
             @ [CHR 0x27] @ ''_blank'' @ [CHR 0x27] @ ''>View Article</a>''"
proof -
  have row: "loop_body (demo_world ''secret'' 200 PNone) (demo_articles ! 1) = Inr (demo_rows ! 1)"
    by (simp add: demo_articles_def demo_rows_def demo_world_def loop_body_def content_def
        py_or_def demo_compound_def sentiment_class_def Let_def)
  have g: "get (demo_articles ! 1) ''title'' PNone = Inr PNone"
    by (simp add: demo_articles_def)
  have n: "\<not> truthy PNone" by simp
  have i: "(1::nat) < length demo_rows" by (simp add: demo_rows_def)
  have c: "content (demo_articles ! 1) = Inr '' Losses widen''"
    by (simp add: demo_articles_def content_def py_or_def)
  have u: "py_str (demo_world ''secret'' 200 PNone) (URL (demo_rows ! 1)) = ''https://example.com/b''"
    by (simp add: demo_rows_def py_str_def)
  from absent_title_fallback [OF row g n i refl]
  have l: "link_text (demo_rows ! 1) = PStr ''View Article''"
    and m: "make_clickable (demo_world ''secret'' 200 PNone) (URL (demo_rows ! 1)) (link_text (demo_rows ! 1)) =
           ''<a href='' @ [CHR 0x27] @ py_str (demo_world ''secret'' 200 PNone) (URL (demo_rows ! 1))
             @ [CHR 0x27] @ '' target='' @ [CHR 0x27] @ ''_blank'' @ [CHR 0x27] @ ''>View Article</a>''"
    by blast+
  have k: "Compound (demo_rows ! 1) = demo_compound '' Losses widen''"
    by (simp add: demo_rows_def demo_compound_def)
  from l c k n i m [unfolded u] show ?thesis by (intro conjI)
qed

section \<open>One row per article\<close>

text \<open>
  Claim C3. The loop appends one row per article of the response and drops none: whenever
  it returns, the number of rows is the number of articles, whatever the fields hold and
  whatever the scores are; and on raw articles it does return.
\<close>

theorem transformation_one_to_one:
  assumes "json resp = Inr body" and "get body ''articles'' (PList []) = Inr (PList xs)"
  shows "(\<forall>data. build_data w resp = Inr data \<longrightarrow> length data = length xs)
       \<and> ((\<forall>a\<in>set xs. raw_article a) \<longrightarrow>
            (\<exists>data. build_data w resp = Inr data \<and> length data = length xs))"
proof -
  have eq: "build_data w resp = for_articles w [] xs"
    using assms by (simp add: build_data_def articles_def)
  have a: "length data = length xs" if "for_articles w [] xs = Inr data" for data
    using for_articles_length [OF that] by simp
  have b: "\<exists>data. for_articles w [] xs = Inr data \<and> length data = length xs"
    if "\<forall>a\<in>set xs. raw_article a"
    using for_articles_total [OF that, of w "[]"] a by blast
  show ?thesis unfolding eq using a b by blast
qed

theorem transformation_one_to_one_witness:
  "build_data (demo_world ''secret'' 200 (PDict [(''articles'', PList demo_articles)]))
      \<lparr>status_code = 200, json = Inr (PDict [(''articles'', PList demo_articles)])\<rparr> = Inr demo_rows
   \<and> length demo_rows = length demo_articles \<and> length demo_articles = 3"
proof -
  have j: "json \<lparr>status_code = 200, json = Inr (PDict [(''articles'', PList demo_articles)])\<rparr>
             = Inr (PDict [(''articles'', PList demo_articles)])" by simp
  have g: "get (PDict [(''articles'', PList demo_articles)]) ''articles'' (PList [])
             = Inr (PList demo_articles)" by simp
  have r: "\<forall>a\<in>set demo_articles. raw_article a" by (simp add: demo_articles_def)
  have b: "build_data (demo_world ''secret'' 200 (PDict [(''articles'', PList demo_articles)]))
      \<lparr>status_code = 200, json = Inr (PDict [(''articles'', PList demo_articles)])\<rparr> = Inr demo_rows"
    by (simp add: build_data_def articles_def demo_data)
  show ?thesis
    using transformation_one_to_one [OF j g,
        of "demo_world ''secret'' 200 (PDict [(''articles'', PList demo_articles)])"] r b
    by (simp add: demo_articles_def)
qed

section \<open>Halting before the dashboard\<close>

text \<open>
  Claim C5. When the news service answers with a status other than 200, the pass shows the
  error message and stops: the events are the page header, the request and the message,
  and no table, chart or export is rendered.
\<close>

theorem non_200_halts:
  assumes "api_key w \<noteq> []" and "requests_get w url (params (api_key w)) = Inr resp"
    and "status_code resp \<noteq> 200"
  shows "run w =
     ([SetPageConfig ''Financial News Sentiment'' ''wide'',
       StTitle (pictograph 0x9388 @ '' Financial News Sentiment Dashboard''),
       SidebarTextInput ''Enter your NewsAPI Key'',
       HttpGet url (params (api_key w)),
       StError ''Failed to fetch articles. Check your API key or try again later.''],
      Stopped)
     \<and> filter is_view (fst (run w)) = []"
  using assms by (simp add: run_def emit_def)

theorem non_200_halts_witness:
  "run (demo_world ''secret'' 401 (PDict [(''status'', PStr ''error'')])) =
     ([SetPageConfig ''Financial News Sentiment'' ''wide'',
       StTitle (pictograph 0x9388 @ '' Financial News Sentiment Dashboard''),
       SidebarTextInput ''Enter your NewsAPI Key'',
       HttpGet url (params ''secret''),
       StError ''Failed to fetch articles. Check your API key or try again later.''],
      Stopped)"
  using non_200_halts [of "demo_world ''secret'' 401 (PDict [(''status'', PStr ''error'')])"
      "\<lparr>status_code = 401, json = Inr (PDict [(''status'', PStr ''error'')])\<rparr>"]
  by (simp add: demo_world_def)

text \<open>
  Claim C6. When the API key is empty, the pass shows the warning and stops before the
  request: no HTTP call is among the events, and nothing is rendered below the warning.
\<close>

theorem missing_credential_halts:
  assumes "api_key w = []"
  shows "run w =
     ([SetPageConfig ''Financial News Sentiment'' ''wide'',
       StTitle (pictograph 0x9388 @ '' Financial News Sentiment Dashboard''),
       SidebarTextInput ''Enter your NewsAPI Key'',
       StWarning ''Please enter your NewsAPI key in the sidebar.''],
      Stopped)
     \<and> filter is_http (fst (run w)) = [] \<and> filter is_view (fst (run w)) = []"
  using assms by (simp add: run_def emit_def)

theorem missing_credential_halts_witness:
  "run (demo_world [] 200 (PDict [(''articles'', PList demo_articles)])) =
     ([SetPageConfig ''Financial News Sentiment'' ''wide'',
       StTitle (pictograph 0x9388 @ '' Financial News Sentiment Dashboard''),
       SidebarTextInput ''Enter your NewsAPI Key'',
       StWarning ''Please enter your NewsAPI key in the sidebar.''],
      Stopped)"
  using missing_credential_halts [of "demo_world [] 200 (PDict [(''articles'', PList demo_articles)])"]
  by (simp add: demo_world_def)

section \<open>The time series\<close>

text \<open>
  Claim C4. The frame sorted for the time series holds the same compound scores as the
  canonical frame, as a multiset, in ascending order of the time stamps; the canonical
  frame keeps its rows in their order (the bar chart before and the export after the sort
  receive it), and only the sorted copy goes to the line chart.
\<close>

theorem time_series_same_scores:
  assumes "styled_rows w df = Inr styled" and "to_datetime_column w df = Inr parsed"
  shows "mset (map Compound (sort_values parsed)) = mset (map Compound df)
       \<and> sorted (map timestamp (filter (\<lambda>x. Published_At x \<noteq> None) (sort_values parsed)))
       \<and> map Compound parsed = map Compound df
       \<and> map Title parsed = map Title df
       \<and> dashboard w df =
           ([Subheader (pictograph 0x93B0 @ '' Articles & Sentiment''),
             StWrite ''Click on a title to read the full article.'',
             WriteHtml (map table_columns styled),
             Subheader (pictograph 0x938A @ '' Sentiment Distribution''),
             AltairChart (Arc (value_counts (map Sentiment df))),
             Subheader (pictograph 0x9389 @ '' Article Sentiment Scores''),
             AltairChart (Bar df),
             Subheader (pictograph 0x9385 @ '' Sentiment Over Time''),
             AltairChart (Line (sort_values parsed)),
             DownloadButton ''Download CSV'' parsed ''financial_news_sentiment.csv'' ''text/csv'']
            @ analyze_custom_url w, Completed)"
proof -
  have f: "map Compound parsed = map Compound df" "map Title parsed = map Title df"
    using to_datetime_column_fields [OF assms(2)] by simp_all
  have "mset (map Compound (sort_values parsed)) = image_mset Compound (mset (sort_values parsed))"
    by simp
  also have "\<dots> = image_mset Compound (mset parsed)"
    by (simp only: mset_sort_values)
  also have "\<dots> = mset (map Compound df)"
    using f(1) by (metis mset_map)
  finally have m: "mset (map Compound (sort_values parsed)) = mset (map Compound df)" .
  have d: "dashboard w df =
           ([Subheader (pictograph 0x93B0 @ '' Articles & Sentiment''),
             StWrite ''Click on a title to read the full article.'',
             WriteHtml (map table_columns styled),
             Subheader (pictograph 0x938A @ '' Sentiment Distribution''),
             AltairChart (Arc (value_counts (map Sentiment df))),
             Subheader (pictograph 0x9389 @ '' Article Sentiment Scores''),
             AltairChart (Bar df),
             Subheader (pictograph 0x9385 @ '' Sentiment Over Time''),
             AltairChart (Line (sort_values parsed)),
             DownloadButton ''Download CSV'' parsed ''financial_news_sentiment.csv'' ''text/csv'']
            @ analyze_custom_url w, Completed)"
    using assms by (simp add: dashboard_def emit_def)
  show ?thesis using m f d sorted_sort_values [of parsed] by simp
qed

theorem time_series_same_scores_witness:
  "map Compound (sort_values demo_parsed) = [- 0.2, 0.6, 0]
   \<and> map Compound demo_rows = [0.6, - 0.2, 0]
   \<and> mset [- 0.2, 0.6, 0 :: real] = mset [0.6, - 0.2, 0]
   \<and> snd (dashboard (demo_world ''secret'' 200 PNone) demo_rows) = Completed"
proof -
  have s: "\<exists>styled. styled_rows (demo_world ''secret'' 200 PNone) demo_rows = Inr styled"
    by (simp add: styled_rows_def demo_rows_def)
  then obtain styled where st: "styled_rows (demo_world ''secret'' 200 PNone) demo_rows = Inr styled" ..
  have c: "map Compound (sort_values demo_parsed) = [- 0.2, 0.6, 0]"
    by (simp add: demo_sorted) (simp add: demo_parsed_def)
  have r: "map Compound demo_rows = [0.6, - 0.2, 0]" by (simp add: demo_rows_def)
  show ?thesis
    using time_series_same_scores [OF st demo_to_datetime] c r by simp
qed

section \<open>Missing fields\<close>

text \<open>
  Claim C7, as stated, fails: an article without any field gives a row whose Title,
  Description, URL and Published At are \<^verbatim>\<open>None\<close>, not empty text.
\<close>

theorem missing_fields_counterexample:
  "loop_body (demo_world ''secret'' 200 PNone) (PDict []) = Inr (demo_rows ! 2)
   \<and> Title (demo_rows ! 2) = PNone \<and> Description (demo_rows ! 2) = PNone
   \<and> URL (demo_rows ! 2) = PNone \<and> Published_At (demo_rows ! 2) = PNone
   \<and> PNone \<noteq> PStr []"
  by (simp add: demo_rows_def demo_world_def loop_body_def content_def py_or_def
      demo_compound_def sentiment_class_def Let_def)

text \<open>
  Claim C7, amended. A raw article with missing fields makes the loop body fail nowhere.
  A missing title or description counts as empty text in the content that is scored, and a
  missing source, or a source without a name, gives the empty source name. The cells Title,
  Description, URL and Published At hold what \<^verbatim>\<open>article.get\<close> returns, which is
  \<^verbatim>\<open>None\<close> for a missing field.
\<close>

theorem missing_fields_kept:
  assumes "raw_article (PDict kvs)"
  shows "\<exists>row. loop_body w (PDict kvs) = Inr row
       \<and> content (PDict kvs) =
           Inr (text_of (map_of kvs ''title'') @ '' '' @ text_of (map_of kvs ''description''))
       \<and> Compound row = polarity_compound w
           (text_of (map_of kvs ''title'') @ '' '' @ text_of (map_of kvs ''description''))
       \<and> text_of None = []
       \<and> Title row = field kvs ''title'' \<and> Description row = field kvs ''description''
       \<and> URL row = field kvs ''url'' \<and> Published_At row = field kvs ''publishedAt''
       \<and> (\<forall>k. map_of kvs k = None \<longrightarrow> field kvs k = PNone)
       \<and> (map_of kvs ''source'' = None \<longrightarrow> Source row = PStr [])
       \<and> (\<forall>s. map_of kvs ''source'' = Some (PDict s) \<and> map_of s ''name'' = None
              \<longrightarrow> Source row = PStr [])"
proof -
  from assms have t: "text_or_absent (map_of kvs ''title'')"
    and d: "text_or_absent (map_of kvs ''description'')" by simp_all
  show ?thesis
    by (auto simp: loop_body_raw [OF assms] content_raw [OF t d] field_def)
qed

theorem missing_fields_kept_witness:
  "raw_article (PDict []) \<and> loop_body (demo_world ''secret'' 200 PNone) (PDict []) = Inr (demo_rows ! 2)
   \<and> content (PDict []) = Inr '' '' \<and> Source (demo_rows ! 2) = PStr []
   \<and> Title (demo_rows ! 2) = PNone"
proof -
  have r: "raw_article (PDict [])" by simp
  have l: "loop_body (demo_world ''secret'' 200 PNone) (PDict []) = Inr (demo_rows ! 2)"
    by (simp add: demo_rows_def demo_world_def loop_body_def content_def py_or_def
      demo_compound_def sentiment_class_def Let_def)
  show ?thesis
    using missing_fields_kept [OF r, of "demo_world ''secret'' 200 PNone"] r l
    by (simp add: demo_rows_def)
qed

section \<open>Time stamps that do not parse\<close>

text \<open>
  Claim C8, as stated, fails for the absent time stamp: the cell \<^verbatim>\<open>None\<close> becomes the
  missing value NaT without any error, and the pass completes.
\<close>

theorem absent_timestamp_counterexample:
  "Published_At (demo_rows ! 2) = PNone
   \<and> to_datetime (demo_world ''secret'' 200 PNone) (Published_At (demo_rows ! 2)) = Inr None
   \<and> to_datetime_column (demo_world ''secret'' 200 PNone) demo_rows = Inr demo_parsed
   \<and> snd (dashboard (demo_world ''secret'' 200 PNone) demo_rows) = Completed"
proof -
  have "demo_rows \<noteq> []" by (simp add: demo_rows_def)
  then obtain styled where "styled_rows (demo_world ''secret'' 200 PNone) demo_rows = Inr styled"
    using styled_rows_nonempty by blast
  then have "snd (dashboard (demo_world ''secret'' 200 PNone) demo_rows) = Completed"
    using demo_to_datetime by (rule dashboard_completes)
  then show ?thesis
    by (simp add: demo_to_datetime) (simp add: demo_rows_def to_datetime_def)
qed

text \<open>
  Claim C8, amended. When the date parser rejects the time stamp of a row (a cell that is
  present), its exception leaves the pass uncaught: the table, the distribution and the bar
  chart have been rendered, the line chart, the export and the custom URL section are not,
  and no value is put in place of the time stamp. An absent time stamp is no failure: it
  is converted to NaT, and when every time stamp of a frame with rows is absent or accepted
  by the parser, the column is parsed, the rows without a time stamp come after all others
  in the sorted copy of the line chart, and the pass completes.
\<close>

theorem rejected_timestamp_uncaught:
  "(x \<in> set df \<and> Published_At x \<noteq> PNone \<and> parse_datetime w (Published_At x) = Inl e0 \<longrightarrow>
      (\<exists>e styled. to_datetime_column w df = Inl e
       \<and> (\<exists>y\<in>set df. Published_At y \<noteq> PNone \<and> parse_datetime w (Published_At y) = Inl e)
       \<and> styled_rows w df = Inr styled
       \<and> dashboard w df =
           ([Subheader (pictograph 0x93B0 @ '' Articles & Sentiment''),
             StWrite ''Click on a title to read the full article.'',
             WriteHtml (map table_columns styled),
             Subheader (pictograph 0x938A @ '' Sentiment Distribution''),
             AltairChart (Arc (value_counts (map Sentiment df))),
             Subheader (pictograph 0x9389 @ '' Article Sentiment Scores''),
             AltairChart (Bar df),
             Subheader (pictograph 0x9385 @ '' Sentiment Over Time'')],
            Uncaught e)))
   \<and> to_datetime w PNone = Inr None
   \<and> (df \<noteq> [] \<and> (\<forall>x\<in>set df. Published_At x = PNone
                          \<or> (\<exists>t. parse_datetime w (Published_At x) = Inr t)) \<longrightarrow>
      (\<exists>parsed styled. to_datetime_column w df = Inr parsed \<and> styled_rows w df = Inr styled
       \<and> length parsed = length df
       \<and> (\<forall>i<length df. Published_At (df ! i) = PNone \<longrightarrow> Published_At (parsed ! i) = None)
       \<and> mset (sort_values parsed) = mset parsed
       \<and> (\<forall>i j. i < length (sort_values parsed) \<and> j < length (sort_values parsed)
              \<and> Published_At (sort_values parsed ! i) = None
              \<and> Published_At (sort_values parsed ! j) \<noteq> None \<longrightarrow> j < i)
       \<and> dashboard w df =
           ([Subheader (pictograph 0x93B0 @ '' Articles & Sentiment''),
             StWrite ''Click on a title to read the full article.'',
             WriteHtml (map table_columns styled),
             Subheader (pictograph 0x938A @ '' Sentiment Distribution''),
             AltairChart (Arc (value_counts (map Sentiment df))),
             Subheader (pictograph 0x9389 @ '' Article Sentiment Scores''),
             AltairChart (Bar df),
             Subheader (pictograph 0x9385 @ '' Sentiment Over Time''),
             AltairChart (Line (sort_values parsed)),
             DownloadButton ''Download CSV'' parsed ''financial_news_sentiment.csv'' ''text/csv'']
            @ analyze_custom_url w, Completed)))"
proof -
  have rejected: "\<exists>e styled. to_datetime_column w df = Inl e
       \<and> (\<exists>y\<in>set df. Published_At y \<noteq> PNone \<and> parse_datetime w (Published_At y) = Inl e)
       \<and> styled_rows w df = Inr styled
       \<and> dashboard w df =
           ([Subheader (pictograph 0x93B0 @ '' Articles & Sentiment''),
             StWrite ''Click on a title to read the full article.'',
             WriteHtml (map table_columns styled),
             Subheader (pictograph 0x938A @ '' Sentiment Distribution''),
             AltairChart (Arc (value_counts (map Sentiment df))),
             Subheader (pictograph 0x9389 @ '' Article Sentiment Scores''),
             AltairChart (Bar df),
             Subheader (pictograph 0x9385 @ '' Sentiment Over Time'')],
            Uncaught e)"
    if x: "x \<in> set df" "Published_At x \<noteq> PNone" "parse_datetime w (Published_At x) = Inl e0"
  proof -
    from to_datetime_column_rejects [OF x] obtain e where e: "to_datetime_column w df = Inl e" ..
    from x(1) have "df \<noteq> []" by auto
    then obtain styled where s: "styled_rows w df = Inr styled"
      using styled_rows_nonempty by blast
    have d: "dashboard w df =
           ([Subheader (pictograph 0x93B0 @ '' Articles & Sentiment''),
             StWrite ''Click on a title to read the full article.'',
             WriteHtml (map table_columns styled),
             Subheader (pictograph 0x938A @ '' Sentiment Distribution''),
             AltairChart (Arc (value_counts (map Sentiment df))),
             Subheader (pictograph 0x9389 @ '' Article Sentiment Scores''),
             AltairChart (Bar df),
             Subheader (pictograph 0x9385 @ '' Sentiment Over Time'')],
            Uncaught e)"
      using e s by (simp add: dashboard_def emit_def)
    show ?thesis
      using e s d to_datetime_column_error [OF e] by blast
  qed
  have accepted: "\<exists>parsed styled. to_datetime_column w df = Inr parsed \<and> styled_rows w df = Inr styled
       \<and> length parsed = length df
       \<and> (\<forall>i<length df. Published_At (df ! i) = PNone \<longrightarrow> Published_At (parsed ! i) = None)
       \<and> mset (sort_values parsed) = mset parsed
       \<and> (\<forall>i j. i < length (sort_values parsed) \<and> j < length (sort_values parsed)
              \<and> Published_At (sort_values parsed ! i) = None
              \<and> Published_At (sort_values parsed ! j) \<noteq> None \<longrightarrow> j < i)
       \<and> dashboard w df =
           ([Subheader (pictograph 0x93B0 @ '' Articles & Sentiment''),
             StWrite ''Click on a title to read the full article.'',
             WriteHtml (map table_columns styled),
             Subheader (pictograph 0x938A @ '' Sentiment Distribution''),
             AltairChart (Arc (value_counts (map Sentiment df))),
             Subheader (pictograph 0x9389 @ '' Article Sentiment Scores''),
             AltairChart (Bar df),
             Subheader (pictograph 0x9385 @ '' Sentiment Over Time''),
             AltairChart (Line (sort_values parsed)),
             DownloadButton ''Download CSV'' parsed ''financial_news_sentiment.csv'' ''text/csv'']
            @ analyze_custom_url w, Completed)"
    if ne: "df \<noteq> []"
      and ok: "\<forall>x\<in>set df. Published_At x = PNone \<or> (\<exists>t. parse_datetime w (Published_At x) = Inr t)"
  proof -
    from to_datetime_column_accepts [OF ok] obtain parsed where
      p: "to_datetime_column w df = Inr parsed" ..
    from ne obtain styled where s: "styled_rows w df = Inr styled"
      using styled_rows_nonempty by blast
    have len: "length parsed = length df"
      using to_datetime_column_fields [OF p] by simp
    have nat: "\<forall>i<length df. Published_At (df ! i) = PNone \<longrightarrow> Published_At (parsed ! i) = None"
      using to_datetime_column_absent [OF p] by blast
    have last: "\<forall>i j. i < length (sort_values parsed) \<and> j < length (sort_values parsed)
              \<and> Published_At (sort_values parsed ! i) = None
              \<and> Published_At (sort_values parsed ! j) \<noteq> None \<longrightarrow> j < i"
      using sort_values_absent_last [of _ parsed] by blast
    have d: "dashboard w df =
           ([Subheader (pictograph 0x93B0 @ '' Articles & Sentiment''),
             StWrite ''Click on a title to read the full article.'',
             WriteHtml (map table_columns styled),
             Subheader (pictograph 0x938A @ '' Sentiment Distribution''),
             AltairChart (Arc (value_counts (map Sentiment df))),
             Subheader (pictograph 0x9389 @ '' Article Sentiment Scores''),
             AltairChart (Bar df),
             Subheader (pictograph 0x9385 @ '' Sentiment Over Time''),
             AltairChart (Line (sort_values parsed)),
             DownloadButton ''Download CSV'' parsed ''financial_news_sentiment.csv'' ''text/csv'']
            @ analyze_custom_url w, Completed)"
      using p s by (simp add: dashboard_def emit_def)
    from p s len nat mset_sort_values [of parsed] last d show ?thesis by blast
  qed
  have absent: "to_datetime w PNone = Inr None" by (simp add: to_datetime_def)
  from rejected absent accepted show ?thesis by blast
qed

theorem rejected_timestamp_uncaught_witness:
  "snd (dashboard (demo_world ''secret'' 200 PNone) demo_malformed)
     = Uncaught (External ''Unknown datetime string format'')
   \<and> Published_At (demo_malformed ! 0) = PStr ''yesterday''
   \<and> demo_parse (PStr ''yesterday'') = Inl (External ''Unknown datetime string format'')
   \<and> snd (dashboard (demo_world ''secret'' 200 PNone) demo_rows) = Completed
   \<and> Published_At (demo_rows ! 2) = PNone \<and> demo_rows \<noteq> []"
proof -
  let ?w = "demo_world ''secret'' 200 PNone"
  have a: "demo_malformed ! 0 \<in> set demo_malformed" by (simp add: demo_malformed_def)
  have b: "Published_At (demo_malformed ! 0) \<noteq> PNone" by (simp add: demo_malformed_def)
  have c: "parse_datetime ?w (Published_At (demo_malformed ! 0))
             = Inl (External ''Unknown datetime string format'')"
    by (simp add: demo_malformed_def demo_world_def demo_parse_def)
  have d: "to_datetime_column ?w demo_malformed = Inl (External ''Unknown datetime string format'')"
    by (simp add: demo_malformed_def demo_world_def demo_parse_def to_datetime_def)
  have ne: "demo_rows \<noteq> []" by (simp add: demo_rows_def)
  have ok: "\<forall>x\<in>set demo_rows. Published_At x = PNone
              \<or> (\<exists>t. parse_datetime ?w (Published_At x) = Inr t)"
    by (simp add: demo_rows_def demo_world_def demo_parse_def)
  from rejected_timestamp_uncaught [of "demo_malformed ! 0" demo_malformed ?w
      "External ''Unknown datetime string format''"] a b c d
  have r1: "snd (dashboard ?w demo_malformed) = Uncaught (External ''Unknown datetime string format'')"
    by auto
  from rejected_timestamp_uncaught [of "demo_malformed ! 0" demo_rows ?w
      "External ''Unknown datetime string format''"] ne ok
  have r2: "snd (dashboard ?w demo_rows) = Completed"
    by auto
  have e1: "Published_At (demo_malformed ! 0) = PStr ''yesterday''" by (simp add: demo_malformed_def)
  have e2: "demo_parse (PStr ''yesterday'') = Inl (External ''Unknown datetime string format'')"
    by (simp add: demo_parse_def)
  have e3: "Published_At (demo_rows ! 2) = PNone" by (simp add: demo_rows_def)
  from r1 e1 e2 r2 e3 ne show ?thesis by (intro conjI)
qed

section \<open>The custom URL\<close>

text \<open>
  Claim C9. A failure of the download, the parse or the extraction is caught in the custom
  URL section and shown as one inline error message that ends with the description of the
  exception; a success shows the extracted title, the label with the compound score, and
  the full text inside the expander. Whatever the section does, the pass has the same
  outcome and the same events before the section, so the dashboard above is not affected,
  and the section renders no table, chart or export of its own.
\<close>

theorem custom_url_outcomes:
  "(\<forall>reason. custom_url w \<noteq> [] \<and> newspaper_article w (custom_url w) = Inl reason \<longrightarrow>
      analyze_custom_url w =
        [Subheader (pictograph 0x948D @ '' Analyze Custom News URL''),
         TextInput ''Paste a news article URL to analyze its sentiment'',
         StError (''Failed to analyze the article. Reason: '' @ reason)])
   \<and> (\<forall>title body. custom_url w \<noteq> [] \<and> newspaper_article w (custom_url w) = Inr (title, body) \<longrightarrow>
      analyze_custom_url w =
        [Subheader (pictograph 0x948D @ '' Analyze Custom News URL''),
         TextInput ''Paste a news article URL to analyze its sentiment'',
         Markdown (''**Title:** '' @ title),
         Markdown (''**Sentiment:** `''
           @ sentiment_label (polarity_compound w (title @ '' '' @ body))
           @ ''` with score `''
           @ py_str w (PNum (polarity_compound w (title @ '' '' @ body))) @ ''`''),
         Expander ''View full article text'' body])
   \<and> (\<exists>evs. \<forall>u n. run (w\<lparr>custom_url := u, newspaper_article := n\<rparr>) =
          (if snd (run w) = Completed
           then (evs @ analyze_custom_url (w\<lparr>custom_url := u, newspaper_article := n\<rparr>),
                 Completed)
           else run w))
   \<and> filter is_view (analyze_custom_url w) = []"
proof -
  have failure: "analyze_custom_url w =
        [Subheader (pictograph 0x948D @ '' Analyze Custom News URL''),
         TextInput ''Paste a news article URL to analyze its sentiment'',
         StError (''Failed to analyze the article. Reason: '' @ reason)]"
    if "custom_url w \<noteq> []" "newspaper_article w (custom_url w) = Inl reason" for reason
    using that by (simp add: analyze_custom_url_def)
  have success: "analyze_custom_url w =
        [Subheader (pictograph 0x948D @ '' Analyze Custom News URL''),
         TextInput ''Paste a news article URL to analyze its sentiment'',
         Markdown (''**Title:** '' @ title),
         Markdown (''**Sentiment:** `''
           @ sentiment_label (polarity_compound w (title @ '' '' @ body))
           @ ''` with score `''
           @ py_str w (PNum (polarity_compound w (title @ '' '' @ body))) @ ''`''),
         Expander ''View full article text'' body]"
    if "custom_url w \<noteq> []" "newspaper_article w (custom_url w) = Inr (title, body)"
    for title body
    using that by (simp add: analyze_custom_url_def Let_def)
  show ?thesis
    using failure success run_custom [of w] analyze_custom_url_no_view [of w] by blast
qed

theorem custom_url_outcomes_witness:
  "analyze_custom_url ((demo_world ''secret'' 200 (PDict [(''articles'', PList demo_articles)]))
       \<lparr>custom_url := ''https://unreachable.example''\<rparr>) =
     [Subheader (pictograph 0x948D @ '' Analyze Custom News URL''),
      TextInput ''Paste a news article URL to analyze its sentiment'',
      StError ''Failed to analyze the article. Reason: Article download failed'']
   \<and> snd (run ((demo_world ''secret'' 200 (PDict [(''articles'', PList demo_articles)]))
       \<lparr>custom_url := ''https://unreachable.example''\<rparr>)) = Completed
   \<and> analyze_custom_url ((demo_world ''secret'' 200 (PDict [(''articles'', PList demo_articles)]))
       \<lparr>custom_url := ''https://example.com/a''\<rparr>) =
     [Subheader (pictograph 0x948D @ '' Analyze Custom News URL''),
      TextInput ''Paste a news article URL to analyze its sentiment'',
      Markdown ''**Title:** Stocks rally'',
      Markdown ''**Sentiment:** `positive` with score `?`'',
      Expander ''View full article text'' ''Markets up'']"
proof -
  let ?b = "PDict [(''articles'', PList demo_articles)]"
  let ?f = "(demo_world ''secret'' 200 ?b)\<lparr>custom_url := ''https://unreachable.example''\<rparr>"
  let ?s = "(demo_world ''secret'' 200 ?b)\<lparr>custom_url := ''https://example.com/a''\<rparr>"
  have f1: "custom_url ?f \<noteq> []" by simp
  have f2: "newspaper_article ?f (custom_url ?f) = Inl ''Article download failed''"
    by (simp add: demo_world_def demo_extraction_def)
  have s1: "custom_url ?s \<noteq> []" by simp
  have s2: "newspaper_article ?s (custom_url ?s) = Inr (''Stocks rally'', ''Markets up'')"
    by (simp add: demo_world_def demo_extraction_def)
  have p: "polarity_compound ?s (''Stocks rally'' @ '' '' @ ''Markets up'') = 0.6"
    by (simp add: demo_world_def demo_compound_def)
  have q: "py_str ?s (PNum 0.6) = ''?''" by (simp add: py_str_def demo_world_def)
  have l: "sentiment_label 0.6 = ''positive''" by (simp add: sentiment_label_def)
  from custom_url_outcomes [of ?f] f1 f2
  have a: "analyze_custom_url ?f =
     [Subheader (pictograph 0x948D @ '' Analyze Custom News URL''),
      TextInput ''Paste a news article URL to analyze its sentiment'',
      StError (''Failed to analyze the article. Reason: '' @ ''Article download failed'')]"
    by blast
  from custom_url_outcomes [of ?s] s1 s2
  have b: "analyze_custom_url ?s =
     [Subheader (pictograph 0x948D @ '' Analyze Custom News URL''),
      TextInput ''Paste a news article URL to analyze its sentiment'',
      Markdown (''**Title:** '' @ ''Stocks rally''),
      Markdown (''**Sentiment:** `''
           @ sentiment_label (polarity_compound ?s (''Stocks rally'' @ '' '' @ ''Markets up''))
           @ ''` with score `''
           @ py_str ?s (PNum (polarity_compound ?s (''Stocks rally'' @ '' '' @ ''Markets up''))) @ ''`''),
      Expander ''View full article text'' ''Markets up'']"
    by blast
  have a': "analyze_custom_url ?f =
     [Subheader (pictograph 0x948D @ '' Analyze Custom News URL''),
      TextInput ''Paste a news article URL to analyze its sentiment'',
      StError ''Failed to analyze the article. Reason: Article download failed'']"
    using a by simp
  have b': "analyze_custom_url ?s =
     [Subheader (pictograph 0x948D @ '' Analyze Custom News URL''),
      TextInput ''Paste a news article URL to analyze its sentiment'',
      Markdown ''**Title:** Stocks rally'',
      Markdown ''**Sentiment:** `positive` with score `?`'',
      Expander ''View full article text'' ''Markets up'']"
    using b by (simp add: demo_world_def demo_compound_def py_str_def sentiment_label_def)
  from a' demo_run_completed [of "''https://unreachable.example''"] b'
  show ?thesis by (intro conjI)
qed

section \<open>A response without articles\<close>

text \<open>
  Claim C10. A response with status 200 and no list of articles gives the empty article
  sequence and zero rows, as the claim says. The frame of zero rows has no columns, though,
  and the pass ends in line 58 with an uncaught exception after the first heading: no
  table, chart or export is rendered.
\<close>

theorem empty_articles_raise:
  "build_data (demo_world ''secret'' 200 (PDict [(''status'', PStr ''ok'')]))
       \<lparr>status_code = 200, json = Inr (PDict [(''status'', PStr ''ok'')])\<rparr> = Inr []
   \<and> run (demo_world ''secret'' 200 (PDict [(''status'', PStr ''ok'')])) =
     ([SetPageConfig ''Financial News Sentiment'' ''wide'',
       StTitle (pictograph 0x9388 @ '' Financial News Sentiment Dashboard''),
       SidebarTextInput ''Enter your NewsAPI Key'',
       HttpGet url (params ''secret''),
       Subheader (pictograph 0x93B0 @ '' Articles & Sentiment'')],
      Uncaught ValueError)"
  by (simp add: run_def demo_world_def emit_def build_data_def articles_def dashboard_def
      styled_rows_def)

end
